theory Spec2Isabelle
  imports Complex_Main "HOL-Library.Word"
begin

section \<open>The Count-Min sketch of the notebook \<open>mincountsketch.ipynb\<close>\<close>

text \<open>
  The notebook defines three classes that matter here: \<open>CountMinSketch\<close> (constructor,
  \<open>_genhash\<close>, \<open>add\<close>, \<open>timed_update\<close>, \<open>estimate\<close>), \<open>BinaryClassification\<close>
  (\<open>_dotProduct\<close>, \<open>classify\<close>) and \<open>classifier\<close> (the same \<open>_dotProduct\<close>).
  Each method is translated below as a function on an explicit sketch value; every
  exception the Python can raise is a value of \<open>error\<close>, returned as \<open>Inl\<close>.

  Two libraries are used by the notebook and are not part of it.
  \<^item> \<open>mmh3.hash(val, seed)\<close> (MurmurHash3, a signed 32-bit result) is a parameter \<open>h\<close>
    of every function that hashes: nothing is assumed about it but that it is a
    function of the token and the seed.
  \<^item> \<open>numpy\<close>: the few array operations the notebook calls (\<open>zeros\<close>, \<open>arange\<close>,
    indexing, elementwise \<open>*\<close> with broadcasting, \<open>sum(axis=1)\<close>, \<open>min\<close>) are modelled
    after their documented behaviour, errors included.

  Numbers. \<open>np.zeros\<close> makes a float64 table, and the notebook only ever adds 1 to its
  cells, so a cell always holds a whole number. The model holds that whole number as
  an \<open>int\<close> and computes sums and products in \<open>int\<close>. float64 agrees with this as long as
  no cell, product or row sum exceeds \<open>2 ^ 53\<close>; past that bound float64 rounds and the
  model does not follow it.

  Not modelled: the field \<open>nbytes\<close> and the printing of times and sizes
  (\<open>sys.getsizeof\<close>, \<open>time.time\<close>), and running out of memory.
\<close>

subsection \<open>Errors and arguments\<close>

datatype error = NameError | ZeroDivisionError | IndexError | ValueError | TypeError

text \<open>
  Python is dynamically typed: the constructor's \<open>indexes\<close> and \<open>hashfuncs\<close> can be
  passed an integer or a float.
\<close>

datatype pynum = PyInt int | PyFloat real

subsection \<open>numpy arrays\<close>

text \<open>
  A two-dimensional array is its shape and its entries by position. Only the entries
  inside the shape mean anything; every operation below checks the shape first.
\<close>

record ndarray =
  nrows :: nat
  ncols :: nat
  cell :: "nat \<Rightarrow> nat \<Rightarrow> int"

text \<open>The array of shape \<open>(r, c)\<close> that holds 0 everywhere.\<close>

definition zeros :: "nat \<Rightarrow> nat \<Rightarrow> ndarray" where
  "zeros r c = \<lparr>nrows = r, ncols = c, cell = (\<lambda>j k. 0)\<rparr>"

text \<open>\<open>np.zeros((m, n))\<close> for integers: a negative dimension is a ValueError.\<close>

definition np_zeros :: "int \<Rightarrow> int \<Rightarrow> error + ndarray" where
  "np_zeros m n =
     (if m < 0 \<or> n < 0 then Inl ValueError else Inr (zeros (nat m) (nat n)))"

text \<open>\<open>np.arange(n).tolist()\<close>: the integers from 0 up to \<open>n - 1\<close>, none when \<open>n \<le> 0\<close>.\<close>

definition np_arange :: "int \<Rightarrow> int list" where
  "np_arange n = map int [0..<nat n]"

text \<open>
  An index into an axis of length \<open>n\<close>: a negative index counts from the end, and an
  index outside the axis is an IndexError.
\<close>

definition norm_index :: "nat \<Rightarrow> int \<Rightarrow> error + nat" where
  "norm_index n i =
     (let j = (if i < 0 then i + int n else i)
      in if 0 \<le> j \<and> j < int n then Inr (nat j) else Inl IndexError)"

text \<open>\<open>a[i, j] += v\<close> on a two-dimensional array.\<close>

definition item_add :: "ndarray \<Rightarrow> int \<Rightarrow> int \<Rightarrow> int \<Rightarrow> error + ndarray" where
  "item_add a i j v =
     (case norm_index (nrows a) i of
        Inl e \<Rightarrow> Inl e
      | Inr r \<Rightarrow>
          (case norm_index (ncols a) j of
             Inl e \<Rightarrow> Inl e
           | Inr c \<Rightarrow> Inr (a\<lparr>cell := (cell a)(r := (cell a r)(c := cell a r c + v))\<rparr>)))"

text \<open>
  Broadcasting of one axis: equal lengths stay, a length of 1 stretches to the other
  length, anything else cannot be broadcast.
\<close>

definition broadcast_dim :: "nat \<Rightarrow> nat \<Rightarrow> nat option" where
  "broadcast_dim m n =
     (if m = n then Some m
      else if m = 1 then Some n
      else if n = 1 then Some m
      else None)"

text \<open>
  \<open>a * b\<close> on two-dimensional arrays: elementwise after broadcasting, a ValueError when
  the shapes cannot be broadcast together. An axis of length 1 is read at position 0.
\<close>

definition np_multiply :: "ndarray \<Rightarrow> ndarray \<Rightarrow> error + ndarray" where
  "np_multiply a b =
     (case broadcast_dim (nrows a) (nrows b) of
        None \<Rightarrow> Inl ValueError
      | Some r \<Rightarrow>
          (case broadcast_dim (ncols a) (ncols b) of
             None \<Rightarrow> Inl ValueError
           | Some c \<Rightarrow>
               Inr \<lparr>nrows = r, ncols = c,
                    cell = (\<lambda>j k.
                      cell a (if nrows a = 1 then 0 else j) (if ncols a = 1 then 0 else k) *
                      cell b (if nrows b = 1 then 0 else j) (if ncols b = 1 then 0 else k))\<rparr>))"

text \<open>\<open>a.sum(axis=1)\<close>: one sum per row, a one-dimensional array.\<close>

definition np_sum_axis1 :: "ndarray \<Rightarrow> int list" where
  "np_sum_axis1 a = map (\<lambda>j. sum_list (map (cell a j) [0..<ncols a])) [0..<nrows a]"

text \<open>\<open>v.min()\<close>: the least entry; numpy raises a ValueError on an empty array.\<close>

fun np_min :: "int list \<Rightarrow> error + int" where
  "np_min [] = Inl ValueError"
| "np_min (x # xs) = Inr (fold min xs x)"

subsection \<open>The class \<open>CountMinSketch\<close>\<close>

text \<open>
  The fields of an instance. \<open>hashes\<close> is a list of closures in the Python, one per
  seed; a closure is determined by the seed it captured (it reads \<open>self.N\<close> when it is
  called), so the list of captured seeds stands for it.
\<close>

record sketch =
  N :: int
  M :: int
  seeds :: "int list"
  table :: ndarray
  hashes :: "int list"

type_synonym 'tok mmh3 = "'tok \<Rightarrow> int \<Rightarrow> 32 word"

text \<open>
  The closure \<open>hash_fn\<close> that \<open>_genhash(seed)\<close> returns:
  \<open>index = mmh3.hash(val, seed=seed); return index % self.N\<close>.
  Python's \<open>%\<close> raises ZeroDivisionError on a zero divisor and otherwise takes the sign
  of the divisor, as \<open>mod\<close> on \<open>int\<close> does.
\<close>

definition hash_fn :: "'tok mmh3 \<Rightarrow> sketch \<Rightarrow> int \<Rightarrow> 'tok \<Rightarrow> error + int" where
  "hash_fn h sk seed val =
     (let index = sint (h val seed)
      in if N sk = 0 then Inl ZeroDivisionError else Inr (index mod N sk))"

text \<open>\<open>self.hashes[ix]\<close> for an \<open>ix\<close> of \<open>range(0, self.M)\<close>, which is never negative.\<close>

definition hashes_at :: "sketch \<Rightarrow> nat \<Rightarrow> error + int" where
  "hashes_at sk ix = (if ix < length (hashes sk) then Inr (hashes sk ! ix) else Inl IndexError)"

text \<open>
  The body of the loop of \<open>add\<close>:
  \<open>self.table[ix, self.hashes[ix](val)] += 1\<close>.
  The index is computed first (closure lookup, hash, modulo), then the cell is read,
  incremented and written back.
\<close>

definition add_row :: "'tok mmh3 \<Rightarrow> sketch \<Rightarrow> 'tok \<Rightarrow> nat \<Rightarrow> error + sketch" where
  "add_row h sk val ix =
     (case hashes_at sk ix of
        Inl e \<Rightarrow> Inl e
      | Inr seed \<Rightarrow>
          (case hash_fn h sk seed val of
             Inl e \<Rightarrow> Inl e
           | Inr k \<Rightarrow>
               (case item_add (table sk) (int ix) k 1 of
                  Inl e \<Rightarrow> Inl e
                | Inr t \<Rightarrow> Inr (sk\<lparr>table := t\<rparr>))))"

text \<open>\<open>for ix in range(0, self.M): ...\<close>, over the rows still to visit.\<close>

fun add_loop :: "'tok mmh3 \<Rightarrow> sketch \<Rightarrow> 'tok \<Rightarrow> nat list \<Rightarrow> error + sketch" where
  "add_loop h sk val [] = Inr sk"
| "add_loop h sk val (ix # ixs) =
     (case add_row h sk val ix of
        Inl e \<Rightarrow> Inl e
      | Inr sk' \<Rightarrow> add_loop h sk' val ixs)"

definition add :: "'tok mmh3 \<Rightarrow> sketch \<Rightarrow> 'tok \<Rightarrow> error + sketch" where
  "add h sk val = add_loop h sk val [0..<nat (M sk)]"

text \<open>
  \<open>for value in valuelist: self.add(value)\<close>: the loop of \<open>timed_update\<close> and of the
  constructor. An exception of \<open>add\<close> ends it.
\<close>

fun timed_update :: "'tok mmh3 \<Rightarrow> sketch \<Rightarrow> 'tok list \<Rightarrow> error + sketch" where
  "timed_update h sk [] = Inr sk"
| "timed_update h sk (value # valuelist) =
     (case add h sk value of
        Inl e \<Rightarrow> Inl e
      | Inr sk' \<Rightarrow> timed_update h sk' valuelist)"



definition init :: "'tok mmh3 \<Rightarrow> 'tok list option \<Rightarrow> pynum \<Rightarrow> pynum \<Rightarrow> error + sketch" where
  "init h seqlist indexes hashfuncs =
     (case (indexes, hashfuncs) of
        (PyInt n, PyInt m) \<Rightarrow>
          (case np_zeros m n of
             Inl e \<Rightarrow> Inl e
           | Inr t \<Rightarrow>
               (let sk = \<lparr>N = n, M = m, seeds = np_arange m, table = t,
                          hashes = np_arange m\<rparr>
                in case seqlist of
                     None \<Rightarrow> Inr sk
                   | Some vs \<Rightarrow> timed_update h sk vs))
      | _ \<Rightarrow> Inl TypeError)"

text \<open>
  \<open>estimate\<close>, as the notebook has it:
  \<^verbatim>\<open>
    def estimate(self, value):
        # Implement a point query from the sketch (see figure above if lost)
        results = []
        for ix in range(0, M):
            # TODO
            # HINT: Nearly Identical to .add()
            pass
  \<close>
  \<open>M\<close> is a global name here, not \<open>self.M\<close>. \<open>gM\<close> is what the notebook's global
  namespace binds \<open>M\<close> to; the notebook binds nothing (\<open>None\<close>), and the lookup
  raises NameError. With a binding the loop runs over its range, does nothing, and the
  method falls off its end: it returns Python's \<open>None\<close>, written \<open>Inr None\<close>.
\<close>

fun estimate_loop :: "int list \<Rightarrow> nat list \<Rightarrow> int list" where
  "estimate_loop results [] = results"
| "estimate_loop results (ix # ixs) = estimate_loop results ixs"

definition estimate :: "int option \<Rightarrow> sketch \<Rightarrow> 'tok \<Rightarrow> error + int option" where
  "estimate gM sk value =
     (let results = [] in
      case gM of
        None \<Rightarrow> Inl NameError
      | Some m \<Rightarrow> (let results' = estimate_loop results [0..<nat m] in Inr None))"

subsection \<open>The classes \<open>BinaryClassification\<close> and \<open>classifier\<close>\<close>

text \<open>
  Both classes define the same method
  \<open>_dotProduct(self, tableA, tableB): return (tableA * tableB).sum(axis=1).min()\<close>.
\<close>

definition dotProduct :: "ndarray \<Rightarrow> ndarray \<Rightarrow> error + int" where
  "dotProduct tableA tableB =
     (case np_multiply tableA tableB of
        Inl e \<Rightarrow> Inl e
      | Inr p \<Rightarrow> np_min (np_sum_axis1 p))"

text \<open>
  \<open>classify\<close> returns nothing and prints three lines; its result here is what it
  printed. \<open>Value s v\<close> is a line \<open>print(s, v)\<close>, \<open>Line s\<close> a line \<open>print(s)\<close>. The two
  estimates are computed before the first \<open>print\<close>, so an exception prints nothing.
  The fields \<open>streamA\<close> and \<open>streamB\<close> are the two reference sketches as they are when
  \<open>classify\<close> is called.
\<close>

datatype printed = Value string int | Line string

record binary_classification =
  streamA :: sketch
  streamB :: sketch

definition classify :: "binary_classification \<Rightarrow> sketch \<Rightarrow> error + printed list" where
  "classify self subsketch =
     (case dotProduct (table subsketch) (table (streamA self)) of
        Inl e \<Rightarrow> Inl e
      | Inr x \<Rightarrow>
          (case dotProduct (table subsketch) (table (streamB self)) of
             Inl e \<Rightarrow> Inl e
           | Inr y \<Rightarrow>
               Inr ([Value ''x='' x, Value ''y='' y] @
                    (if x > y then [Line ''Subsketch is of class A'']
                     else [Line ''Subsketch is of class B'']))))"

subsection \<open>Several instances\<close>






subsection \<open>Notions used in the statements\<close>

text \<open>
  A sketch is \<open>shaped\<close> when its table has \<open>M\<close> rows and \<open>N\<close> columns and there is one
  hash closure per row. The constructor makes shaped sketches and \<open>add\<close> keeps them so.
\<close>

definition shaped :: "sketch \<Rightarrow> bool" where
  "shaped sk \<longleftrightarrow>
     0 \<le> N sk \<and> 0 \<le> M sk \<and> nrows (table sk) = nat (M sk) \<and>
     ncols (table sk) = nat (N sk) \<and> length (hashes sk) = nat (M sk)"

text \<open>
  The column that the closure of row \<open>ix\<close> sends a token to, in a sketch of width
  \<open>N > 0\<close>.
\<close>

definition col :: "'tok mmh3 \<Rightarrow> sketch \<Rightarrow> 'tok \<Rightarrow> nat \<Rightarrow> nat" where
  "col h sk val ix = nat (sint (h val (hashes sk ! ix)) mod N sk)"




text \<open>
  An array written by its rows, for concrete inputs; its width is the length of the
  first row, and it holds 0 outside the rows given.
\<close>

definition of_rows :: "int list list \<Rightarrow> ndarray" where
  "of_rows rs =
     \<lparr>nrows = length rs,
      ncols = (case rs of [] \<Rightarrow> 0 | r # _ \<Rightarrow> length r),
      cell = (\<lambda>j k. if j < length rs \<and> k < length (rs ! j) then rs ! j ! k else 0)\<rparr>"

text \<open>
  A stand-in for \<open>mmh3.hash\<close> on strings, to run the model on concrete inputs: the
  length of the token plus the seed.
\<close>

definition example_hash :: "string mmh3" where
  "example_hash val seed = word_of_int (int (length val) + seed)"

section \<open>Properties\<close>

subsection \<open>Auxiliary facts: one row, one call, one sequence of calls\<close>

lemma norm_index_nat: "norm_index n (int i) = (if i < n then Inr i else Inl IndexError)"
  by (simp add: norm_index_def)

lemma norm_index_nonneg:
  "0 \<le> i \<Longrightarrow> norm_index n i = (if i < int n then Inr (nat i) else Inl IndexError)"
  by (simp add: norm_index_def)

lemma hash_fn_pos:
  "0 < N sk \<Longrightarrow> hash_fn h sk seed val = Inr (sint (h val seed) mod N sk)"
  by (simp add: hash_fn_def)

text \<open>In a shaped sketch of positive width the body of the loop cannot raise.\<close>

lemma add_row_shaped:
  assumes "shaped sk" "0 < N sk" "ix < nat (M sk)"
  shows "add_row h sk val ix =
    Inr (sk\<lparr>table := (table sk)\<lparr>cell := (cell (table sk))
      (ix := (cell (table sk) ix)(col h sk val ix := cell (table sk) ix (col h sk val ix) + 1))\<rparr>\<rparr>)"
  using assms
  by (simp add: add_row_def hashes_at_def shaped_def hash_fn_pos item_add_def norm_index_nat
      norm_index_nonneg col_def)

lemma add_loop_shaped:
  assumes "shaped sk" "0 < N sk" "set ixs \<subseteq> {..<nat (M sk)}" "distinct ixs"
  shows "\<exists>sk'. add_loop h sk val ixs = Inr sk' \<and> N sk' = N sk \<and> M sk' = M sk \<and>
      seeds sk' = seeds sk \<and> hashes sk' = hashes sk \<and>
      nrows (table sk') = nrows (table sk) \<and> ncols (table sk') = ncols (table sk) \<and>
      (\<forall>j k. cell (table sk') j k =
         cell (table sk) j k + (if j \<in> set ixs \<and> k = col h sk val j then 1 else 0))"
  using assms
proof (induction ixs arbitrary: sk)
  case Nil
  then show ?case by simp
next
  case (Cons ix ixs)
  let ?sk1 = "sk\<lparr>table := (table sk)\<lparr>cell := (cell (table sk))
      (ix := (cell (table sk) ix)(col h sk val ix := cell (table sk) ix (col h sk val ix) + 1))\<rparr>\<rparr>"
  have row: "add_row h sk val ix = Inr ?sk1"
    using Cons.prems by (intro add_row_shaped) auto
  have sh1: "shaped ?sk1" using Cons.prems(1) by (simp add: shaped_def)
  have col1: "col h ?sk1 val = col h sk val" by (simp add: col_def fun_eq_iff)
  from Cons.IH[of ?sk1] sh1 Cons.prems
  obtain sk' where sk': "add_loop h ?sk1 val ixs = Inr sk'" "N sk' = N sk" "M sk' = M sk"
    "seeds sk' = seeds sk" "hashes sk' = hashes sk"
    "nrows (table sk') = nrows (table sk)" "ncols (table sk') = ncols (table sk)"
    "\<forall>j k. cell (table sk') j k =
         cell (table ?sk1) j k + (if j \<in> set ixs \<and> k = col h ?sk1 val j then 1 else 0)"
    by auto
  have "\<forall>j k. cell (table sk') j k =
         cell (table sk) j k + (if j \<in> set (ix # ixs) \<and> k = col h sk val j then 1 else 0)"
    using sk'(8) Cons.prems(4) unfolding col1 by auto
  with sk' row show ?case by simp
qed


text \<open>Whenever the body of the loop returns, it has added 1 to one cell and kept the rest.\<close>

lemma item_add_cells:
  assumes "item_add a i j v = Inr a'"
  shows "\<exists>r c. cell a' = (cell a)(r := (cell a r)(c := cell a r c + v)) \<and>
      nrows a' = nrows a \<and> ncols a' = ncols a"
proof -
  from assms obtain r c where
    "a' = a\<lparr>cell := (cell a)(r := (cell a r)(c := cell a r c + v))\<rparr>"
    by (auto simp: item_add_def split: sum.splits)
  then have "cell a' = (cell a)(r := (cell a r)(c := cell a r c + v)) \<and>
      nrows a' = nrows a \<and> ncols a' = ncols a"
    by simp
  then show ?thesis by blast
qed

lemma add_row_cells:
  assumes "add_row h sk val ix = Inr sk'"
  shows "\<exists>r c. cell (table sk') = (cell (table sk))
      (r := (cell (table sk) r)(c := cell (table sk) r c + 1))"
proof -
  from assms obtain k t where "item_add (table sk) (int ix) k 1 = Inr t" "sk' = sk\<lparr>table := t\<rparr>"
    by (auto simp: add_row_def split: sum.splits)
  then show ?thesis using item_add_cells by fastforce
qed

lemma add_row_frame:
  assumes "add_row h sk val ix = Inr sk'"
  shows "N sk' = N sk \<and> M sk' = M sk \<and> seeds sk' = seeds sk \<and> hashes sk' = hashes sk \<and>
      nrows (table sk') = nrows (table sk) \<and> ncols (table sk') = ncols (table sk)"
proof -
  from assms obtain k t where t: "item_add (table sk) (int ix) k 1 = Inr t" "sk' = sk\<lparr>table := t\<rparr>"
    by (auto simp: add_row_def split: sum.splits)
  from item_add_cells[OF t(1)] t(2) show ?thesis by auto
qed

lemma add_row_grows:
  assumes "add_row h sk val ix = Inr sk'"
  shows "cell (table sk) j k \<le> cell (table sk') j k"
  using add_row_cells[OF assms] by auto

lemma add_loop_grows:
  assumes "add_loop h sk val ixs = Inr sk'"
  shows "cell (table sk) j k \<le> cell (table sk') j k"
  using assms
proof (induction ixs arbitrary: sk)
  case Nil
  then show ?case by simp
next
  case (Cons ix ixs)
  then obtain sk1 where s1: "add_row h sk val ix = Inr sk1" "add_loop h sk1 val ixs = Inr sk'"
    by (auto split: sum.splits)
  have "cell (table sk) j k \<le> cell (table sk1) j k" by (rule add_row_grows[OF s1(1)])
  also have "\<dots> \<le> cell (table sk') j k" by (rule Cons.IH[OF s1(2)])
  finally show ?case .
qed

lemma add_grows:
  assumes "add h sk val = Inr sk'"
  shows "cell (table sk) j k \<le> cell (table sk') j k"
  using assms add_loop_grows by (simp add: add_def)

lemma timed_update_grows:
  assumes "timed_update h sk vs = Inr sk'"
  shows "cell (table sk) j k \<le> cell (table sk') j k"
  using assms
proof (induction vs arbitrary: sk)
  case Nil
  then show ?case by simp
next
  case (Cons v vs)
  then obtain sk1 where s1: "add h sk v = Inr sk1" "timed_update h sk1 vs = Inr sk'"
    by (auto split: sum.splits)
  have "cell (table sk) j k \<le> cell (table sk1) j k" by (rule add_grows[OF s1(1)])
  also have "\<dots> \<le> cell (table sk') j k" by (rule Cons.IH[OF s1(2)])
  finally show ?case .
qed

lemma add_loop_keeps_shape:
  assumes "add_loop h sk val ixs = Inr sk'" "shaped sk"
  shows "shaped sk'"
  using assms
proof (induction ixs arbitrary: sk)
  case Nil
  then show ?case by simp
next
  case (Cons ix ixs)
  then obtain sk1 where s1: "add_row h sk val ix = Inr sk1" "add_loop h sk1 val ixs = Inr sk'"
    by (auto split: sum.splits)
  from add_row_frame[OF s1(1)] Cons.prems(2) have "shaped sk1" by (simp add: shaped_def)
  then show ?case by (rule Cons.IH[OF s1(2)])
qed

lemma add_keeps_shape:
  assumes "add h sk val = Inr sk'" "shaped sk"
  shows "shaped sk'"
  using assms add_loop_keeps_shape by (simp add: add_def)

lemma timed_update_keeps_shape:
  assumes "timed_update h sk vs = Inr sk'" "shaped sk"
  shows "shaped sk'"
  using assms
proof (induction vs arbitrary: sk)
  case Nil
  then show ?case by simp
next
  case (Cons v vs)
  then obtain sk1 where s1: "add h sk v = Inr sk1" "timed_update h sk1 vs = Inr sk'"
    by (auto split: sum.splits)
  have "shaped sk1" by (rule add_keeps_shape[OF s1(1) Cons.prems(2)])
  then show ?case by (rule Cons.IH[OF s1(2)])
qed

text \<open>
  What a call of the constructor that returns has done: both arguments were
  non-negative integers, and the result is the zero table after the updates of
  \<open>seqlist\<close>, if any.
\<close>

lemma init_Inr:
  assumes "init h seqlist indexes hashfuncs = Inr sk"
  obtains n m where "indexes = PyInt n" "hashfuncs = PyInt m" "0 \<le> n" "0 \<le> m"
    "timed_update h \<lparr>N = n, M = m, seeds = np_arange m, table = zeros (nat m) (nat n),
       hashes = np_arange m\<rparr> (case seqlist of None \<Rightarrow> [] | Some vs \<Rightarrow> vs) = Inr sk"
proof (cases indexes)
  case (PyInt n)
  show ?thesis
  proof (cases hashfuncs)
    case m: (PyInt m)
    from assms PyInt m have "0 \<le> n" "0 \<le> m"
      "timed_update h \<lparr>N = n, M = m, seeds = np_arange m, table = zeros (nat m) (nat n),
       hashes = np_arange m\<rparr> (case seqlist of None \<Rightarrow> [] | Some vs \<Rightarrow> vs) = Inr sk"
      by (auto simp: init_def np_zeros_def split: if_splits option.splits)
    with PyInt m that show ?thesis by blast
  next
    case (PyFloat x)
    with assms PyInt show ?thesis by (simp add: init_def)
  qed
next
  case (PyFloat x)
  with assms show ?thesis by (simp add: init_def)
qed

text \<open>
  Every sketch the constructor returns is shaped and has no negative cell; by
  \<open>add_keeps_shape\<close> and \<open>add_grows\<close> so has every sketch reached from it.
\<close>

lemma init_shaped:
  assumes "init h seqlist indexes hashfuncs = Inr sk"
  shows "shaped sk"
proof -
  from assms obtain n m where nm: "0 \<le> n" "0 \<le> m" and
    tu: "timed_update h \<lparr>N = n, M = m, seeds = np_arange m, table = zeros (nat m) (nat n),
       hashes = np_arange m\<rparr> (case seqlist of None \<Rightarrow> [] | Some vs \<Rightarrow> vs) = Inr sk"
    by (rule init_Inr)
  have "shaped \<lparr>N = n, M = m, seeds = np_arange m, table = zeros (nat m) (nat n),
           hashes = np_arange m\<rparr>"
    using nm by (simp add: shaped_def zeros_def np_arange_def)
  then show ?thesis by (rule timed_update_keeps_shape[OF tu])
qed

lemma init_nonneg:
  assumes "init h seqlist indexes hashfuncs = Inr sk"
  shows "0 \<le> cell (table sk) j k"
proof -
  from assms obtain n m where
    tu: "timed_update h \<lparr>N = n, M = m, seeds = np_arange m, table = zeros (nat m) (nat n),
       hashes = np_arange m\<rparr> (case seqlist of None \<Rightarrow> [] | Some vs \<Rightarrow> vs) = Inr sk"
    by (rule init_Inr)
  from timed_update_grows[OF tu, of j k] show ?thesis by (simp add: zeros_def)
qed

text \<open>With a positive width, \<open>add\<close> and a sequence of \<open>add\<close> always return.\<close>

lemma add_returns:
  assumes "shaped sk" "0 < N sk"
  shows "\<exists>sk'. add h sk val = Inr sk' \<and> shaped sk' \<and> N sk' = N sk"
proof -
  have "set [0..<nat (M sk)] \<subseteq> {..<nat (M sk)}" "distinct [0..<nat (M sk)]"
    by auto
  from add_loop_shaped[OF assms this, of h val] assms(1) show ?thesis
    by (auto simp: add_def shaped_def)
qed

lemma timed_update_returns:
  assumes "shaped sk" "0 < N sk"
  shows "\<exists>sk'. timed_update h sk vs = Inr sk' \<and> shaped sk' \<and> N sk' = N sk"
  using assms
proof (induction vs arbitrary: sk)
  case Nil
  then show ?case by simp
next
  case (Cons v vs)
  from add_returns[OF Cons.prems, of h v] obtain sk1 where
    sk1: "add h sk v = Inr sk1" "shaped sk1" "N sk1 = N sk"
    by blast
  with Cons.IH[of sk1] Cons.prems(2) show ?case by auto
qed

lemma init_4_2:
  "init example_hash None (PyInt 4) (PyInt 2) =
     Inr \<lparr>N = 4, M = 2, seeds = [0, 1], table = zeros 2 4, hashes = [0, 1]\<rparr>"
  by (simp add: init_def np_zeros_def np_arange_def upt_conv_Cons numeral_2_eq_2)

subsection \<open>Auxiliary facts: the inner product\<close>








subsection \<open>Auxiliary facts: several instances\<close>



subsection \<open>The point query\<close>

text \<open>
  Claim C1 says that the point query returns the least of the cells
  \<open>[j, hash_j(t)]\<close>. The method \<open>estimate\<close> of the notebook is the unfinished exercise
  shown above: whatever the sketch and the token, it raises NameError, since the
  notebook binds no global \<open>M\<close>; and had it one, \<open>estimate\<close> would return Python's
  \<open>None\<close>. It never returns a number.
\<close>

theorem estimate_is_a_stub:
  "estimate None sk value = Inl NameError \<and> estimate (Some m) sk value = Inr None"
  by (simp add: estimate_def)

subsection \<open>The update\<close>




subsection \<open>The inner product of two tables of one shape\<close>




subsection \<open>The constructor\<close>




subsection \<open>The inner product of two tables of different shapes\<close>




subsection \<open>Cells never go below zero and never decrease\<close>

text \<open>
  Claim C6. Take a sketch as the constructor returns it (with or without \<open>seqlist\<close>)
  and any sequence of updates applied to it. In the state reached every cell is
  non-negative, and no further \<open>add\<close> decreases a cell; the same holds for every state
  inside a call of \<open>add\<close>, after any number of rows of its loop.
\<close>

theorem cells_nonneg_and_never_decrease:
  assumes "init h seqlist indexes hashfuncs = Inr sk0"
      and "timed_update h sk0 vs = Inr sk"
  shows "(\<forall>j k. 0 \<le> cell (table sk) j k) \<and>
      (\<forall>val sk'. add h sk val = Inr sk' \<longrightarrow> (\<forall>j k. cell (table sk) j k \<le> cell (table sk') j k)) \<and>
      (\<forall>val ixs sk'. add_loop h sk val ixs = Inr sk' \<longrightarrow>
         (\<forall>j k. cell (table sk) j k \<le> cell (table sk') j k))"
proof -
  have "0 \<le> cell (table sk) j k" for j k
  proof -
    have "0 \<le> cell (table sk0) j k" by (rule init_nonneg[OF assms(1)])
    also have "\<dots> \<le> cell (table sk) j k" by (rule timed_update_grows[OF assms(2)])
    finally show ?thesis .
  qed
  moreover have "cell (table sk) j k \<le> cell (table sk') j k"
    if "add h sk val = Inr sk'" for val sk' j k
    using that by (rule add_grows)
  moreover have "cell (table sk) j k \<le> cell (table sk') j k"
    if "add_loop h sk val ixs = Inr sk'" for val ixs sk' j k
    using that by (rule add_loop_grows)
  ultimately show ?thesis by blast
qed

text \<open>
  The statement at a sketch of 2 rows and 4 columns after the tokens \<open>ab\<close> and \<open>abc\<close>,
  for a further \<open>add\<close> of \<open>ab\<close> and the cell in row 0, column 2.
\<close>

theorem cells_nonneg_witness:
  "\<exists>sk0 sk sk'. init example_hash None (PyInt 4) (PyInt 2) = Inr sk0 \<and>
     timed_update example_hash sk0 [''ab'', ''abc''] = Inr sk \<and>
     add example_hash sk ''ab'' = Inr sk' \<and>
     0 \<le> cell (table sk) 0 2 \<and> cell (table sk) 0 2 \<le> cell (table sk') 0 2"
proof -
  let ?sk0 = "\<lparr>N = 4, M = 2, seeds = [0, 1], table = zeros 2 4, hashes = [0, 1]\<rparr>"
  have sh: "shaped ?sk0" "0 < N ?sk0" by (simp_all add: shaped_def zeros_def)
  from timed_update_returns[OF sh, of example_hash "[''ab'', ''abc'']"] obtain sk where
    sk: "timed_update example_hash ?sk0 [''ab'', ''abc''] = Inr sk" "shaped sk" "N sk = N ?sk0"
    by blast
  from add_returns[of sk example_hash "''ab''"] sk(2,3) obtain sk' where
    sk': "add example_hash sk ''ab'' = Inr sk'"
    by auto
  from cells_nonneg_and_never_decrease[OF init_4_2 sk(1)] sk'
  have "0 \<le> cell (table sk) 0 2" "cell (table sk) 0 2 \<le> cell (table sk') 0 2"
    by blast+
  with init_4_2 sk(1) sk' show ?thesis by blast
qed

subsection \<open>The range of the hash closures\<close>




subsection \<open>Two instances fed the same tokens\<close>



subsection \<open>The classification\<close>

text \<open>
  Claim C10. When both estimates exist, \<open>x\<close> against \<open>streamA\<close> and \<open>y\<close> against
  \<open>streamB\<close>, \<open>classify\<close> prints the two estimates and one verdict. The verdict is class A
  exactly when \<open>x > y\<close> and class B exactly when \<open>x \<le> y\<close>; equal estimates give class B.
\<close>

theorem classify_reports:
  assumes "dotProduct (table subsketch) (table (streamA self)) = Inr x"
      and "dotProduct (table subsketch) (table (streamB self)) = Inr y"
  shows "\<exists>m. classify self subsketch = Inr [Value ''x='' x, Value ''y='' y, Line m] \<and>
      (m = ''Subsketch is of class A'' \<longleftrightarrow> y < x) \<and>
      (m = ''Subsketch is of class B'' \<longleftrightarrow> x \<le> y) \<and>
      (x = y \<longrightarrow> m = ''Subsketch is of class B'')"
  using assms by (simp add: classify_def)

text \<open>
  The statement at the table with rows \<open>(1, 2), (3, 4)\<close>: against the estimates 17 and 7
  the verdict is class A, against 17 and 17 it is class B.
\<close>

theorem classify_reports_witness:
  "classify
     \<lparr>streamA = \<lparr>N = 2, M = 2, seeds = [0, 1], table = of_rows [[5, 6], [7, 8]], hashes = [0, 1]\<rparr>,
      streamB = \<lparr>N = 2, M = 2, seeds = [0, 1], table = of_rows [[9, 4], [1, 1]], hashes = [0, 1]\<rparr>\<rparr>
     \<lparr>N = 2, M = 2, seeds = [0, 1], table = of_rows [[1, 2], [3, 4]], hashes = [0, 1]\<rparr> =
     Inr [Value ''x='' 17, Value ''y='' 7, Line ''Subsketch is of class A''] \<and>
   classify
     \<lparr>streamA = \<lparr>N = 2, M = 2, seeds = [0, 1], table = of_rows [[5, 6], [7, 8]], hashes = [0, 1]\<rparr>,
      streamB = \<lparr>N = 2, M = 2, seeds = [0, 1], table = of_rows [[5, 6], [7, 8]], hashes = [0, 1]\<rparr>\<rparr>
     \<lparr>N = 2, M = 2, seeds = [0, 1], table = of_rows [[1, 2], [3, 4]], hashes = [0, 1]\<rparr> =
     Inr [Value ''x='' 17, Value ''y='' 17, Line ''Subsketch is of class B'']"
proof -
  let ?S = "\<lparr>N = 2, M = 2, seeds = [0, 1], table = of_rows [[1, 2], [3, 4]], hashes = [0, 1]\<rparr>"
  let ?A = "\<lparr>N = 2, M = 2, seeds = [0, 1], table = of_rows [[5, 6], [7, 8]], hashes = [0, 1]\<rparr>"
  let ?B = "\<lparr>N = 2, M = 2, seeds = [0, 1], table = of_rows [[9, 4], [1, 1]], hashes = [0, 1]\<rparr>"
  have x: "dotProduct (table ?S) (table ?A) = Inr 17"
    by (simp add: dotProduct_def np_multiply_def broadcast_dim_def of_rows_def np_sum_axis1_def
        upt_conv_Cons numeral_2_eq_2)
  have y: "dotProduct (table ?S) (table ?B) = Inr 7"
    by (simp add: dotProduct_def np_multiply_def broadcast_dim_def of_rows_def np_sum_axis1_def
        upt_conv_Cons numeral_2_eq_2)
  from classify_reports[of ?S "\<lparr>streamA = ?A, streamB = ?B\<rparr>" 17 7] x y
  have 1: "classify \<lparr>streamA = ?A, streamB = ?B\<rparr> ?S =
      Inr [Value ''x='' 17, Value ''y='' 7, Line ''Subsketch is of class A'']"
    by auto
  from classify_reports[of ?S "\<lparr>streamA = ?A, streamB = ?A\<rparr>" 17 17] x
  have 2: "classify \<lparr>streamA = ?A, streamB = ?A\<rparr> ?S =
      Inr [Value ''x='' 17, Value ''y='' 17, Line ''Subsketch is of class B'']"
    by auto
  from 1 2 show ?thesis by simp
qed

end
